theory Spec2Isabelle
  imports Main
begin

section \<open>The profile store of chcc (config.go)\<close>

subsection \<open>Data model\<close>

text \<open>
  \<^verbatim>\<open>type APISite struct { Name, BaseURL, Token string }\<close> and
  \<^verbatim>\<open>type Config struct { APISites []APISite; DefaultAPISite string }\<close>.
  A Go string is a byte sequence, a slice is a list. The methods have a pointer
  receiver and mutate the store; the model passes the store in and returns the new one.
\<close>

record APISite =
  Name :: string
  BaseURL :: string
  Token :: string

record Config =
  APISites :: "APISite list"
  DefaultAPISite :: string

subsection \<open>The search loop shared by the store's methods\<close>

text \<open>
  Every method of the store opens with
  \<^verbatim>\<open>for i, site := range c.APISites { if site.Name == name { ...; return } }\<close>:
  the body runs at the first index whose site carries the name, and the code after the
  loop runs when there is none. \<open>find_site\<close> is that loop: the first matching index.
\<close>

fun find_site :: "string \<Rightarrow> APISite list \<Rightarrow> nat option" where
  "find_site name [] = None"
| "find_site name (site # sites) =
     (if Name site = name then Some 0 else map_option Suc (find_site name sites))"

subsection \<open>Store operations\<close>

text \<open>\<^verbatim>\<open>GetAPISiteByName\<close>: a copy of the first site with the name, or nil.\<close>

definition GetAPISiteByName :: "Config \<Rightarrow> string \<Rightarrow> APISite option" where
  "GetAPISiteByName c name =
     (case find_site name (APISites c) of
        Some i \<Rightarrow> Some (APISites c ! i)
      | None \<Rightarrow> None)"

text \<open>
  \<^verbatim>\<open>GetDefaultAPISite\<close>: the first site named \<open>DefaultAPISite\<close>, else the first
  site of the list, else nil.
\<close>

definition GetDefaultAPISite :: "Config \<Rightarrow> APISite option" where
  "GetDefaultAPISite c =
     (case find_site (DefaultAPISite c) (APISites c) of
        Some i \<Rightarrow> Some (APISites c ! i)
      | None \<Rightarrow>
          (if length (APISites c) > 0 then Some (APISites c ! 0) else None))"

text \<open>
  \<^verbatim>\<open>AddOrUpdateAPISite\<close>: at the first match, assign the two fields of
  \<^verbatim>\<open>c.APISites[i]\<close> and return; with no match, append a new site.
\<close>

definition AddOrUpdateAPISite :: "Config \<Rightarrow> string \<Rightarrow> string \<Rightarrow> string \<Rightarrow> Config" where
  "AddOrUpdateAPISite c name baseURL token =
     (case find_site name (APISites c) of
        Some i \<Rightarrow>
          c\<lparr>APISites :=
              (APISites c)[i := (APISites c ! i)\<lparr>BaseURL := baseURL, Token := token\<rparr>]\<rparr>
      | None \<Rightarrow>
          (let newSite = \<lparr>Name = name, BaseURL = baseURL, Token = token\<rparr>
           in c\<lparr>APISites := APISites c @ [newSite]\<rparr>))"

text \<open>\<^verbatim>\<open>SetDefaultAPISite\<close>: the returned bool and the store after the call.\<close>

definition SetDefaultAPISite :: "Config \<Rightarrow> string \<Rightarrow> bool \<times> Config" where
  "SetDefaultAPISite c name =
     (case find_site name (APISites c) of
        Some i \<Rightarrow> (True, c\<lparr>DefaultAPISite := name\<rparr>)
      | None \<Rightarrow> (False, c))"

text \<open>
  \<^verbatim>\<open>RemoveAPISite\<close>: \<^verbatim>\<open>append(c.APISites[:i], c.APISites[i+1:]...)\<close> drops
  index \<open>i\<close>; when the removed name was the default, the default is cleared and then
  set to the name of the first remaining site, if any.
\<close>

definition RemoveAPISite :: "Config \<Rightarrow> string \<Rightarrow> bool \<times> Config" where
  "RemoveAPISite c name =
     (case find_site name (APISites c) of
        Some i \<Rightarrow>
          (let c1 = c\<lparr>APISites := take i (APISites c) @ drop (i + 1) (APISites c)\<rparr>;
               c2 = (if DefaultAPISite c1 = name
                     then (let c' = c1\<lparr>DefaultAPISite := ''''\<rparr>
                           in if length (APISites c') > 0
                              then c'\<lparr>DefaultAPISite := Name (APISites c' ! 0)\<rparr>
                              else c')
                     else c1)
           in (True, c2))
      | None \<Rightarrow> (False, c))"

subsection \<open>The commands, as far as they change the store (main.go)\<close>

text \<open>
  \<^verbatim>\<open>loadConfig\<close> builds this store when there is no configuration file:
  \<^verbatim>\<open>&Config{APISites: []APISite{}, DefaultAPISite: ""}\<close>.
\<close>

definition emptyConfig :: Config where
  "emptyConfig = \<lparr>APISites = [], DefaultAPISite = ''''\<rparr>"

text \<open>
  Each command loads the store, changes it, saves it and prints. The definitions below
  are the change each command makes to the loaded store. \<^verbatim>\<open>addAPISite\<close> calls
  \<^verbatim>\<open>AddOrUpdateAPISite\<close> and then tests
  \<^verbatim>\<open>if config.DefaultAPISite == "" { config.DefaultAPISite = name }\<close>;
  \<^verbatim>\<open>setDefaultAPISite\<close> and \<^verbatim>\<open>removeAPISite\<close> call the store method and save
  only when it returned true (the store is the loaded one otherwise).
\<close>

definition addAPISite :: "Config \<Rightarrow> string \<Rightarrow> string \<Rightarrow> string \<Rightarrow> Config" where
  "addAPISite config name url token =
     (let c1 = AddOrUpdateAPISite config name url token
      in if DefaultAPISite c1 = '''' then c1\<lparr>DefaultAPISite := name\<rparr> else c1)"

definition setDefaultAPISite :: "Config \<Rightarrow> string \<Rightarrow> Config" where
  "setDefaultAPISite config name =
     (case SetDefaultAPISite config name of
        (True, c1) \<Rightarrow> c1
      | (False, _) \<Rightarrow> config)"

definition removeAPISite :: "Config \<Rightarrow> string \<Rightarrow> Config" where
  "removeAPISite config name =
     (case RemoveAPISite config name of
        (True, c1) \<Rightarrow> c1
      | (False, _) \<Rightarrow> config)"

datatype command =
  Add string string string
| SetDefault string
| Remove string

fun exec :: "Config \<Rightarrow> command \<Rightarrow> Config" where
  "exec c (Add name url token) = addAPISite c name url token"
| "exec c (SetDefault name) = setDefaultAPISite c name"
| "exec c (Remove name) = removeAPISite c name"

text \<open>The store after a sequence of commands, starting with no configuration file.\<close>

definition run :: "command list \<Rightarrow> Config" where
  "run cmds = foldl exec emptyConfig cmds"

text \<open>
  The two invariants of the data model: a non-empty default names a site of the list,
  and no two sites share a name.
\<close>

definition default_valid :: "Config \<Rightarrow> bool" where
  "default_valid c \<longleftrightarrow>
     (DefaultAPISite c \<noteq> '''' \<longrightarrow> DefaultAPISite c \<in> Name ` set (APISites c))"

definition names_distinct :: "Config \<Rightarrow> bool" where
  "names_distinct c \<longleftrightarrow> distinct (map Name (APISites c))"

text \<open>
  The platforms \<^verbatim>\<open>setDefaultAPISite\<close> tells apart when it prints the commands for
  the current terminal: \<^verbatim>\<open>case "windows"\<close>, \<^verbatim>\<open>case "linux", "darwin"\<close>, and
  \<^verbatim>\<open>default\<close>, which prints "Unsupported OS".
\<close>

datatype platform = WindowsLike | UnixLike | Unsupported

definition platform_of :: "string \<Rightarrow> platform" where
  "platform_of os =
     (if os = ''windows'' then WindowsLike
      else if os = ''linux'' \<or> os = ''darwin'' then UnixLike
      else Unsupported)"

section \<open>The operating system, as the program sees it\<close>

text \<open>
  The program reads \<^verbatim>\<open>runtime.GOOS\<close>, \<^verbatim>\<open>os.UserHomeDir()\<close>, the process
  environment and the file system, and on Windows runs \<^verbatim>\<open>setx\<close>. The state below
  holds what those calls answer.

  A file is its content and whether this process may read it and may open it for
  appending. Files live in \<open>store\<close> under an inode number, and \<open>names\<close> gives the
  inode a path resolves to, symbolic links followed: two paths with the same inode are
  one file, and a path without an inode has no file. \<open>path_error\<close> is the error with
  which resolving a path fails before any file is looked at (a directory on the way
  that may not be searched, or that is missing or not a directory), whether or not a
  file is there.

  \<open>homeDir = None\<close> is \<^verbatim>\<open>os.UserHomeDir\<close> returning an error. \<open>setx_ok v\<close> says
  whether \<^verbatim>\<open>setx v ...\<close> exits with success, in which case the user's persistent
  environment \<open>user_environ\<close> holds the value. The source discards the result of
  \<^verbatim>\<open>f.WriteString\<close>; the model takes the write to succeed. Printing is left out.
\<close>

record osfile =
  content :: string
  readable :: bool
  appendable :: bool

type_synonym inode = nat

datatype os_error = ErrNotExist | ErrPermission | ErrNotDir

record world =
  goos :: string
  homeDir :: "string option"
  environ :: "string \<rightharpoonup> string"
  names :: "string \<rightharpoonup> inode"
  path_error :: "string \<rightharpoonup> os_error"
  store :: "inode \<Rightarrow> osfile"
  setx_ok :: "string \<Rightarrow> bool"
  user_environ :: "string \<rightharpoonup> string"

text \<open>
  The errors the program builds, one constructor for each message: "failed to read
  config file" with the wrapped error (the specification's IOError), "failed to parse
  YAML" (ParseError), "API site '...' not found", "failed to get home directory"
  (EnvError), all four from \<^verbatim>\<open>fmt.Errorf\<close>, and "Error getting user home directory",
  with which \<^verbatim>\<open>getConfigFilePath\<close> ends the process.
\<close>

datatype error =
  ReadConfigError os_error
| ParseYAMLError
| SiteNotFound string
| HomeDirError
| UserHomeDirFatal

definition os_Stat :: "world \<Rightarrow> string \<Rightarrow> os_error option" where
  "os_Stat w path =
     (case path_error w path of
        Some err \<Rightarrow> Some err
      | None \<Rightarrow> (case names w path of None \<Rightarrow> Some ErrNotExist | Some i \<Rightarrow> None))"

text \<open>\<^verbatim>\<open>os.IsNotExist(err)\<close>: true of the error for a missing file only.\<close>

definition os_IsNotExist :: "os_error option \<Rightarrow> bool" where
  "os_IsNotExist err \<longleftrightarrow> err = Some ErrNotExist"

definition os_ReadFile :: "world \<Rightarrow> string \<Rightarrow> os_error + string" where
  "os_ReadFile w path =
     (case path_error w path of
        Some err \<Rightarrow> Inl err
      | None \<Rightarrow>
          (case names w path of
             None \<Rightarrow> Inl ErrNotExist
           | Some i \<Rightarrow>
               if readable (store w i) then Inr (content (store w i)) else Inl ErrPermission))"

text \<open>
  \<^verbatim>\<open>os.OpenFile(rcFile, os.O_APPEND|os.O_WRONLY, 0644)\<close>: without
  \<^verbatim>\<open>O_CREATE\<close> a missing file is an error. The handle is the inode.
\<close>

definition os_OpenFile_append :: "world \<Rightarrow> string \<Rightarrow> os_error + inode" where
  "os_OpenFile_append w path =
     (case path_error w path of
        Some err \<Rightarrow> Inl err
      | None \<Rightarrow>
          (case names w path of
             None \<Rightarrow> Inl ErrNotExist
           | Some i \<Rightarrow> if appendable (store w i) then Inr i else Inl ErrPermission))"

text \<open>\<^verbatim>\<open>f.WriteString(s)\<close> on a handle opened with \<^verbatim>\<open>O_APPEND\<close>.\<close>

definition WriteString :: "inode \<Rightarrow> string \<Rightarrow> world \<Rightarrow> world" where
  "WriteString f s w =
     w\<lparr>store := (store w)(f := (store w f)\<lparr>content := content (store w f) @ s\<rparr>)\<rparr>"

text \<open>
  \<^verbatim>\<open>os.Setenv\<close> refuses a value that holds a NUL byte (Plan 9 apart) and then leaves
  the environment as it is; the source discards its result.
\<close>

definition os_Setenv :: "string \<Rightarrow> string \<Rightarrow> world \<Rightarrow> world" where
  "os_Setenv key val w =
     (if CHR 0x00 \<in> set val \<and> goos w \<noteq> ''plan9'' then w
      else w\<lparr>environ := (environ w)(key \<mapsto> val)\<rparr>)"

definition setx :: "string \<Rightarrow> string \<Rightarrow> world \<Rightarrow> world" where
  "setx key val w =
     (if setx_ok w key then w\<lparr>user_environ := (user_environ w)(key \<mapsto> val)\<rparr> else w)"

section \<open>Loading the store\<close>

text \<open>
  \<^verbatim>\<open>LoadConfig\<close> reads the file and hands the bytes to \<^verbatim>\<open>yaml.Unmarshal\<close> of
  gopkg.in/yaml.v2, which is not part of the repository: it is the parameter
  \<open>unmarshal\<close>, \<open>None\<close> when it returns an error.
\<close>

definition LoadConfig :: "(string \<Rightarrow> Config option) \<Rightarrow> world \<Rightarrow> string \<Rightarrow> error + Config" where
  "LoadConfig unmarshal w filename =
     (case os_ReadFile w filename of
        Inl err \<Rightarrow> Inl (ReadConfigError err)
      | Inr data \<Rightarrow>
          (case unmarshal data of
             None \<Rightarrow> Inl ParseYAMLError
           | Some config \<Rightarrow> Inr config))"

text \<open>
  \<^verbatim>\<open>getConfigFilePath\<close> of main.go: \<^verbatim>\<open>log.Fatalf\<close> when \<^verbatim>\<open>os.UserHomeDir\<close>
  fails, else \<^verbatim>\<open>filepath.Join(homeDir, ".chcc.yaml")\<close>. \<^verbatim>\<open>filepath.Join\<close> belongs
  to the standard library and depends on the platform: it is the parameter \<open>join\<close>.
  Ending the process is the \<open>Inl\<close> result.
\<close>

definition getConfigFilePath :: "(string \<Rightarrow> string \<Rightarrow> string) \<Rightarrow> world \<Rightarrow> error + string" where
  "getConfigFilePath join w =
     (case homeDir w of
        None \<Rightarrow> Inl UserHomeDirFatal
      | Some home \<Rightarrow> Inr (join home ''.chcc.yaml''))"

text \<open>
  \<^verbatim>\<open>loadConfig\<close> of main.go:
  \<^verbatim>\<open>if _, err := os.Stat(configFile); os.IsNotExist(err)\<close> gives the empty store;
  every other answer of \<^verbatim>\<open>os.Stat\<close>, an error included, leads to \<^verbatim>\<open>LoadConfig\<close>,
  whose error ends the process through \<^verbatim>\<open>log.Fatalf\<close>.
\<close>

definition loadConfig ::
  "(string \<Rightarrow> string \<Rightarrow> string) \<Rightarrow> (string \<Rightarrow> Config option) \<Rightarrow> world \<Rightarrow> error + Config" where
  "loadConfig join unmarshal w =
     (case getConfigFilePath join w of
        Inl fatal \<Rightarrow> Inl fatal
      | Inr configFile \<Rightarrow>
          (if os_IsNotExist (os_Stat w configFile) then Inr emptyConfig
           else
             (case LoadConfig unmarshal w configFile of
                Inl err \<Rightarrow> Inl err
              | Inr config \<Rightarrow> Inr config)))"

section \<open>Environment propagation\<close>

definition exportLines :: "string \<Rightarrow> string \<Rightarrow> string" where
  "exportLines baseURL authToken =
     [CHR 0x0A] @ ''# CHCC API Configuration'' @ [CHR 0x0A]
     @ ''export ANTHROPIC_BASE_URL='' @ [CHR 0x22] @ baseURL @ [CHR 0x22, CHR 0x0A]
     @ ''export ANTHROPIC_AUTH_TOKEN='' @ [CHR 0x22] @ authToken @ [CHR 0x22, CHR 0x0A]"

text \<open>
  The body of the loop over the two startup files: a file for which \<^verbatim>\<open>os.Stat\<close>
  returns an error is passed over, one that cannot be opened is skipped by
  \<^verbatim>\<open>continue\<close>, and the lines are written to the end of one that can.
\<close>

definition append_rc :: "string \<Rightarrow> world \<Rightarrow> string \<Rightarrow> world" where
  "append_rc lines w rcFile =
     (case os_Stat w rcFile of
        Some err \<Rightarrow> w
      | None \<Rightarrow>
          (case os_OpenFile_append w rcFile of
             Inl err \<Rightarrow> w
           | Inr f \<Rightarrow> WriteString f lines w))"

definition setUnixEnvVars :: "string \<Rightarrow> string \<Rightarrow> world \<Rightarrow> (error + unit) \<times> world" where
  "setUnixEnvVars baseURL authToken w =
     (let w1 = os_Setenv ''ANTHROPIC_BASE_URL'' baseURL w;
          w2 = os_Setenv ''ANTHROPIC_AUTH_TOKEN'' authToken w1
      in case homeDir w2 of
           None \<Rightarrow> (Inl HomeDirError, w2)
         | Some home \<Rightarrow>
             (let bashrcPath = home @ ''/.bashrc'';
                  zshrcPath = home @ ''/.zshrc'';
                  lines = exportLines baseURL authToken
              in (Inr (), foldl (append_rc lines) w2 [bashrcPath, zshrcPath])))"

text \<open>A failing \<^verbatim>\<open>setx\<close> only prints a warning; the function returns nil always.\<close>

definition setWindowsEnvVars :: "string \<Rightarrow> string \<Rightarrow> world \<Rightarrow> (error + unit) \<times> world" where
  "setWindowsEnvVars baseURL authToken w =
     (let w1 = os_Setenv ''ANTHROPIC_BASE_URL'' baseURL w;
          w2 = os_Setenv ''ANTHROPIC_AUTH_TOKEN'' authToken w1;
          w3 = setx ''ANTHROPIC_BASE_URL'' baseURL w2;
          w4 = setx ''ANTHROPIC_AUTH_TOKEN'' authToken w3
      in (Inr (), w4))"

definition SetEnvironmentVariables :: "Config \<Rightarrow> string \<Rightarrow> world \<Rightarrow> (error + unit) \<times> world" where
  "SetEnvironmentVariables c siteName w =
     (case GetAPISiteByName c siteName of
        None \<Rightarrow> (Inl (SiteNotFound siteName), w)
      | Some site \<Rightarrow>
          (let baseURL = BaseURL site;
               authToken = Token site
           in if goos w = ''windows''
              then setWindowsEnvVars baseURL authToken w
              else setUnixEnvVars baseURL authToken w))"

section \<open>Properties of the search loop\<close>

lemma find_site_None: "find_site name sites = None \<longleftrightarrow> name \<notin> Name ` set sites"
  by (induction sites) auto

lemma find_site_Some:
  "find_site name sites = Some i \<Longrightarrow>
     i < length sites \<and> Name (sites ! i) = name \<and> name \<notin> Name ` set (take i sites)"
proof (induction sites arbitrary: i)
  case Nil
  then show ?case by simp
next
  case (Cons site sites)
  show ?case
  proof (cases "Name site = name")
    case True
    with Cons.prems show ?thesis by simp
  next
    case False
    with Cons.prems obtain j where j: "find_site name sites = Some j" "i = Suc j"
      by auto
    from Cons.IH [OF j(1)] j(2) False show ?thesis by simp
  qed
qed

lemma find_site_update:
  "find_site name sites = Some i \<Longrightarrow>
     find_site name (sites[i := (sites ! i)\<lparr>BaseURL := b, Token := t\<rparr>]) = Some i"
proof (induction sites arbitrary: i)
  case Nil
  then show ?case by simp
next
  case (Cons site sites)
  show ?case
  proof (cases "Name site = name")
    case True
    with Cons.prems show ?thesis by simp
  next
    case False
    with Cons.prems obtain j where j: "find_site name sites = Some j" "i = Suc j"
      by auto
    from Cons.IH [OF j(1)] j(2) False show ?thesis by simp
  qed
qed

lemma find_site_append_new:
  "find_site name sites = None \<Longrightarrow>
     find_site name (sites @ [site]) = (if Name site = name then Some (length sites) else None)"
  by (induction sites) (auto split: if_splits)

section \<open>SetDefaultAPISite\<close>

text \<open>
  Claim C4. \<open>SetDefaultAPISite\<close> returns true and sets \<open>DefaultAPISite\<close> to the given
  name exactly when some site of the store has that name; otherwise it returns false
  and the store, both the list of sites and \<open>DefaultAPISite\<close>, is unchanged.
\<close>

theorem SetDefaultAPISite_spec:
  "SetDefaultAPISite c name =
     (if name \<in> Name ` set (APISites c)
      then (True, c\<lparr>DefaultAPISite := name\<rparr>)
      else (False, c))"
proof (cases "find_site name (APISites c)")
  case None
  then show ?thesis
    by (simp add: SetDefaultAPISite_def find_site_None [symmetric])
next
  case (Some i)
  then have "name \<in> Name ` set (APISites c)"
    using find_site_None [of name "APISites c"] by simp
  with Some show ?thesis
    by (simp add: SetDefaultAPISite_def)
qed

theorem SetDefaultAPISite_spec_witness:
  "SetDefaultAPISite
     \<lparr>APISites = [\<lparr>Name = ''A'', BaseURL = ''u1'', Token = ''t1''\<rparr>,
                   \<lparr>Name = ''B'', BaseURL = ''u2'', Token = ''t2''\<rparr>],
       DefaultAPISite = ''A''\<rparr> ''B''
   = (True,
      \<lparr>APISites = [\<lparr>Name = ''A'', BaseURL = ''u1'', Token = ''t1''\<rparr>,
                   \<lparr>Name = ''B'', BaseURL = ''u2'', Token = ''t2''\<rparr>],
       DefaultAPISite = ''B''\<rparr>)
   \<and> SetDefaultAPISite
     \<lparr>APISites = [\<lparr>Name = ''A'', BaseURL = ''u1'', Token = ''t1''\<rparr>,
                   \<lparr>Name = ''B'', BaseURL = ''u2'', Token = ''t2''\<rparr>],
       DefaultAPISite = ''A''\<rparr> ''C''
   = (False,
      \<lparr>APISites = [\<lparr>Name = ''A'', BaseURL = ''u1'', Token = ''t1''\<rparr>,
                   \<lparr>Name = ''B'', BaseURL = ''u2'', Token = ''t2''\<rparr>],
       DefaultAPISite = ''A''\<rparr>)"
  using SetDefaultAPISite_spec
          [of "\<lparr>APISites = [\<lparr>Name = ''A'', BaseURL = ''u1'', Token = ''t1''\<rparr>,
                            \<lparr>Name = ''B'', BaseURL = ''u2'', Token = ''t2''\<rparr>],
                DefaultAPISite = ''A''\<rparr>" "''B''"]
        SetDefaultAPISite_spec
          [of "\<lparr>APISites = [\<lparr>Name = ''A'', BaseURL = ''u1'', Token = ''t1''\<rparr>,
                            \<lparr>Name = ''B'', BaseURL = ''u2'', Token = ''t2''\<rparr>],
                DefaultAPISite = ''A''\<rparr>" "''C''"]
  by simp

section \<open>AddOrUpdateAPISite\<close>

text \<open>
  Claim C1. When a site with the name exists, \<open>AddOrUpdateAPISite\<close> overwrites the
  base URL and token of that site (the first one carrying the name) where it stands:
  the list has the same length and the same names in the same order, and
  \<open>GetAPISiteByName\<close> then returns the new fields. When no site has the name, a site
  with exactly the given fields is appended at the end of the list.
\<close>

theorem AddOrUpdateAPISite_spec:
  "(name \<in> Name ` set (APISites c) \<longrightarrow>
      (\<exists>i < length (APISites c).
          Name (APISites c ! i) = name
        \<and> name \<notin> Name ` set (take i (APISites c))
        \<and> APISites (AddOrUpdateAPISite c name baseURL token)
            = (APISites c)[i := \<lparr>Name = name, BaseURL = baseURL, Token = token\<rparr>])
    \<and> length (APISites (AddOrUpdateAPISite c name baseURL token)) = length (APISites c)
    \<and> map Name (APISites (AddOrUpdateAPISite c name baseURL token))
        = map Name (APISites c)
    \<and> GetAPISiteByName (AddOrUpdateAPISite c name baseURL token) name
        = Some \<lparr>Name = name, BaseURL = baseURL, Token = token\<rparr>)
   \<and> (name \<notin> Name ` set (APISites c) \<longrightarrow>
        APISites (AddOrUpdateAPISite c name baseURL token)
          = APISites c @ [\<lparr>Name = name, BaseURL = baseURL, Token = token\<rparr>]
      \<and> GetAPISiteByName (AddOrUpdateAPISite c name baseURL token) name
          = Some \<lparr>Name = name, BaseURL = baseURL, Token = token\<rparr>)"
proof -
  define c' where "c' = AddOrUpdateAPISite c name baseURL token"
  define new where "new = \<lparr>Name = name, BaseURL = baseURL, Token = token\<rparr>"
  let ?xs = "APISites c"
  have "(name \<in> Name ` set ?xs \<longrightarrow>
            (\<exists>i < length ?xs.
                Name (?xs ! i) = name
              \<and> name \<notin> Name ` set (take i ?xs)
              \<and> APISites c' = ?xs[i := new])
          \<and> length (APISites c') = length ?xs
          \<and> map Name (APISites c') = map Name ?xs
          \<and> GetAPISiteByName c' name = Some new)
       \<and> (name \<notin> Name ` set ?xs \<longrightarrow>
            APISites c' = ?xs @ [new]
          \<and> GetAPISiteByName c' name = Some new)"
  proof (cases "find_site name ?xs")
    case None
    then have notin: "name \<notin> Name ` set ?xs"
      by (simp add: find_site_None)
    from None have sites: "APISites c' = ?xs @ [new]"
      by (simp add: c'_def new_def AddOrUpdateAPISite_def)
    from None have "find_site name (?xs @ [new]) = Some (length ?xs)"
      by (simp add: find_site_append_new new_def)
    with sites have "GetAPISiteByName c' name = Some new"
      by (simp add: GetAPISiteByName_def)
    with notin sites show ?thesis by simp
  next
    case (Some i)
    from find_site_Some [OF Some]
    have i: "i < length ?xs" "Name (?xs ! i) = name" "name \<notin> Name ` set (take i ?xs)"
      by simp_all
    then have isin: "name \<in> Name ` set ?xs"
      by (metis nth_mem imageI)
    have upd: "(?xs ! i)\<lparr>BaseURL := baseURL, Token := token\<rparr> = new"
      using i(2) by (simp add: new_def)
    from Some have sites: "APISites c' = ?xs[i := new]"
      by (simp add: c'_def AddOrUpdateAPISite_def upd)
    have names: "map Name (?xs[i := new]) = map Name ?xs"
      using i by (simp add: map_update new_def list_update_same_conv)
    have "find_site name (?xs[i := new]) = Some i"
      using find_site_update [OF Some, where b = baseURL and t = token] upd by simp
    with sites i(1) have "GetAPISiteByName c' name = Some new"
      by (simp add: GetAPISiteByName_def)
    with isin i sites names show ?thesis by auto
  qed
  then show ?thesis
    unfolding c'_def new_def .
qed

theorem AddOrUpdateAPISite_spec_witness:
  "GetAPISiteByName
     (AddOrUpdateAPISite
        \<lparr>APISites = [\<lparr>Name = ''A'', BaseURL = ''u1'', Token = ''t1''\<rparr>,
                      \<lparr>Name = ''B'', BaseURL = ''u2'', Token = ''t2''\<rparr>],
          DefaultAPISite = ''A''\<rparr> ''B'' ''u3'' ''t3'') ''B''
     = Some \<lparr>Name = ''B'', BaseURL = ''u3'', Token = ''t3''\<rparr>
   \<and> length (APISites (AddOrUpdateAPISite
        \<lparr>APISites = [\<lparr>Name = ''A'', BaseURL = ''u1'', Token = ''t1''\<rparr>,
                      \<lparr>Name = ''B'', BaseURL = ''u2'', Token = ''t2''\<rparr>],
          DefaultAPISite = ''A''\<rparr> ''B'' ''u3'' ''t3'')) = 2
   \<and> map Name (APISites (AddOrUpdateAPISite
        \<lparr>APISites = [\<lparr>Name = ''A'', BaseURL = ''u1'', Token = ''t1''\<rparr>,
                      \<lparr>Name = ''B'', BaseURL = ''u2'', Token = ''t2''\<rparr>],
          DefaultAPISite = ''A''\<rparr> ''B'' ''u3'' ''t3'')) = [''A'', ''B'']
   \<and> APISites (AddOrUpdateAPISite
        \<lparr>APISites = [\<lparr>Name = ''A'', BaseURL = ''u1'', Token = ''t1''\<rparr>,
                      \<lparr>Name = ''B'', BaseURL = ''u2'', Token = ''t2''\<rparr>],
          DefaultAPISite = ''A''\<rparr> ''C'' ''u3'' ''t3'')
     = [\<lparr>Name = ''A'', BaseURL = ''u1'', Token = ''t1''\<rparr>,
        \<lparr>Name = ''B'', BaseURL = ''u2'', Token = ''t2''\<rparr>,
        \<lparr>Name = ''C'', BaseURL = ''u3'', Token = ''t3''\<rparr>]"
  using AddOrUpdateAPISite_spec
          [of "''B''"
              "\<lparr>APISites = [\<lparr>Name = ''A'', BaseURL = ''u1'', Token = ''t1''\<rparr>,
                            \<lparr>Name = ''B'', BaseURL = ''u2'', Token = ''t2''\<rparr>],
                DefaultAPISite = ''A''\<rparr>" "''u3''" "''t3''"]
        AddOrUpdateAPISite_spec
          [of "''C''"
              "\<lparr>APISites = [\<lparr>Name = ''A'', BaseURL = ''u1'', Token = ''t1''\<rparr>,
                            \<lparr>Name = ''B'', BaseURL = ''u2'', Token = ''t2''\<rparr>],
                DefaultAPISite = ''A''\<rparr>" "''u3''" "''t3''"]
  by simp

section \<open>The default and adding a site\<close>

text \<open>
  Claim C10. \<open>AddOrUpdateAPISite\<close> itself never changes \<open>DefaultAPISite\<close>, whether
  it updates a site or appends one. The default is assigned by the caller, the command
  \<open>addAPISite\<close>, and only when \<open>DefaultAPISite\<close> is the empty string; the command
  changes nothing else of what \<open>AddOrUpdateAPISite\<close> returned.
\<close>

theorem AddOrUpdateAPISite_keeps_default:
  "DefaultAPISite (AddOrUpdateAPISite c name baseURL token) = DefaultAPISite c
   \<and> DefaultAPISite (addAPISite c name baseURL token)
       = (if DefaultAPISite c = '''' then name else DefaultAPISite c)
   \<and> APISites (addAPISite c name baseURL token)
       = APISites (AddOrUpdateAPISite c name baseURL token)"
  by (simp add: AddOrUpdateAPISite_def addAPISite_def Let_def split: option.split)

theorem AddOrUpdateAPISite_keeps_default_witness:
  "DefaultAPISite (AddOrUpdateAPISite emptyConfig ''A'' ''u1'' ''t1'') = ''''
   \<and> DefaultAPISite (addAPISite emptyConfig ''A'' ''u1'' ''t1'') = ''A''
   \<and> DefaultAPISite (addAPISite
         \<lparr>APISites = [\<lparr>Name = ''A'', BaseURL = ''u1'', Token = ''t1''\<rparr>],
           DefaultAPISite = ''A''\<rparr> ''B'' ''u2'' ''t2'') = ''A''"
  using AddOrUpdateAPISite_keeps_default [of emptyConfig "''A''" "''u1''" "''t1''"]
        AddOrUpdateAPISite_keeps_default
          [of "\<lparr>APISites = [\<lparr>Name = ''A'', BaseURL = ''u1'', Token = ''t1''\<rparr>],
                DefaultAPISite = ''A''\<rparr>" "''B''" "''u2''" "''t2''"]
  by (simp add: emptyConfig_def)

section \<open>RemoveAPISite\<close>

lemma first_name_conv:
  "(case ys of [] \<Rightarrow> '''' | first # _ \<Rightarrow> Name first)
     = (if length ys > 0 then Name (ys ! 0) else '''')"
  by (cases ys) simp_all

lemma find_site_split:
  "find_site name sites = Some i \<Longrightarrow>
     sites = take i sites @ (sites ! i) # drop (i + 1) sites"
  using find_site_Some [of name sites i] by (simp add: id_take_nth_drop)

text \<open>
  Claim C3. When no site has the name, \<open>RemoveAPISite\<close> returns false (and leaves
  the store as it is). Otherwise it returns true and deletes the first site carrying
  the name, the sites before and after it keeping their order; when the removed name
  was the default, \<open>DefaultAPISite\<close> becomes the name of the first remaining site,
  or the empty string when none remains; when it was not, \<open>DefaultAPISite\<close> is
  unchanged.
\<close>

theorem RemoveAPISite_spec:
  "(name \<notin> Name ` set (APISites c) \<longrightarrow> RemoveAPISite c name = (False, c))
   \<and> (name \<in> Name ` set (APISites c) \<longrightarrow>
        (\<exists>pre site post.
            APISites c = pre @ site # post
          \<and> Name site = name
          \<and> name \<notin> Name ` set pre
          \<and> RemoveAPISite c name =
              (True,
               \<lparr>APISites = pre @ post,
                 DefaultAPISite =
                   (if DefaultAPISite c = name
                    then (case pre @ post of [] \<Rightarrow> '''' | first # _ \<Rightarrow> Name first)
                    else DefaultAPISite c)\<rparr>)))"
proof (cases "find_site name (APISites c)")
  case None
  then have "name \<notin> Name ` set (APISites c)"
    by (simp add: find_site_None)
  with None show ?thesis
    by (simp add: RemoveAPISite_def)
next
  case (Some i)
  let ?xs = "APISites c"
  let ?pre = "take i ?xs" and ?post = "drop (i + 1) ?xs"
  from find_site_Some [OF Some]
  have i: "i < length ?xs" "Name (?xs ! i) = name" "name \<notin> Name ` set ?pre"
    by simp_all
  then have isin: "name \<in> Name ` set ?xs"
    by (metis nth_mem imageI)
  have split: "?xs = ?pre @ (?xs ! i) # ?post"
    by (rule find_site_split [OF Some])
  have first: "(case ?pre @ ?post of [] \<Rightarrow> '''' | first # _ \<Rightarrow> Name first)
               = (if length (?pre @ ?post) > 0 then Name ((?pre @ ?post) ! 0) else '''')"
    by (rule first_name_conv)
  have "RemoveAPISite c name =
          (True,
           \<lparr>APISites = ?pre @ ?post,
             DefaultAPISite =
               (if DefaultAPISite c = name
                then (case ?pre @ ?post of [] \<Rightarrow> '''' | first # _ \<Rightarrow> Name first)
                else DefaultAPISite c)\<rparr>)"
    unfolding first using Some by (simp add: RemoveAPISite_def Let_def)
  with split i(2,3) isin show ?thesis by blast
qed

theorem RemoveAPISite_spec_witness:
  "RemoveAPISite
     \<lparr>APISites = [\<lparr>Name = ''A'', BaseURL = ''u1'', Token = ''t1''\<rparr>,
                   \<lparr>Name = ''B'', BaseURL = ''u2'', Token = ''t2''\<rparr>,
                   \<lparr>Name = ''C'', BaseURL = ''u3'', Token = ''t3''\<rparr>],
       DefaultAPISite = ''A''\<rparr> ''D''
     = (False,
        \<lparr>APISites = [\<lparr>Name = ''A'', BaseURL = ''u1'', Token = ''t1''\<rparr>,
                   \<lparr>Name = ''B'', BaseURL = ''u2'', Token = ''t2''\<rparr>,
                   \<lparr>Name = ''C'', BaseURL = ''u3'', Token = ''t3''\<rparr>],
       DefaultAPISite = ''A''\<rparr>)
   \<and> (\<exists>pre site post.
         [\<lparr>Name = ''A'', BaseURL = ''u1'', Token = ''t1''\<rparr>,
          \<lparr>Name = ''B'', BaseURL = ''u2'', Token = ''t2''\<rparr>,
          \<lparr>Name = ''C'', BaseURL = ''u3'', Token = ''t3''\<rparr>] = pre @ site # post
       \<and> Name site = ''A''
       \<and> ''A'' \<notin> Name ` set pre
       \<and> RemoveAPISite
            \<lparr>APISites = [\<lparr>Name = ''A'', BaseURL = ''u1'', Token = ''t1''\<rparr>,
                          \<lparr>Name = ''B'', BaseURL = ''u2'', Token = ''t2''\<rparr>,
                          \<lparr>Name = ''C'', BaseURL = ''u3'', Token = ''t3''\<rparr>],
              DefaultAPISite = ''A''\<rparr> ''A''
           = (True,
              \<lparr>APISites = pre @ post,
                DefaultAPISite = (case pre @ post of [] \<Rightarrow> '''' | first # _ \<Rightarrow> Name first)\<rparr>))"
  using RemoveAPISite_spec
          [of "''D''"
              "\<lparr>APISites = [\<lparr>Name = ''A'', BaseURL = ''u1'', Token = ''t1''\<rparr>,
                            \<lparr>Name = ''B'', BaseURL = ''u2'', Token = ''t2''\<rparr>,
                            \<lparr>Name = ''C'', BaseURL = ''u3'', Token = ''t3''\<rparr>],
                DefaultAPISite = ''A''\<rparr>"]
        RemoveAPISite_spec
          [of "''A''"
              "\<lparr>APISites = [\<lparr>Name = ''A'', BaseURL = ''u1'', Token = ''t1''\<rparr>,
                            \<lparr>Name = ''B'', BaseURL = ''u2'', Token = ''t2''\<rparr>,
                            \<lparr>Name = ''C'', BaseURL = ''u3'', Token = ''t3''\<rparr>],
                DefaultAPISite = ''A''\<rparr>"]
  by simp

section \<open>The command add and the default\<close>

text \<open>
  The command assigns the default when \<open>DefaultAPISite\<close> is empty, whatever the list
  of sites holds. So claim C2 fails as it is stated for every store with at least one
  site: a store with sites and an empty default comes from a configuration file without
  \<^verbatim>\<open>default_api_site\<close>, or from adding a site whose name is the empty string (lemma
  \<open>run_empty_name\<close>), and adding a site to it changes the default.
\<close>

theorem addAPISite_default_counterexample:
  "APISites \<lparr>APISites = [\<lparr>Name = ''A'', BaseURL = ''u1'', Token = ''t1''\<rparr>],
             DefaultAPISite = ''''\<rparr> \<noteq> []
   \<and> DefaultAPISite
        (addAPISite
           \<lparr>APISites = [\<lparr>Name = ''A'', BaseURL = ''u1'', Token = ''t1''\<rparr>],
             DefaultAPISite = ''''\<rparr> ''B'' ''u2'' ''t2'') = ''B''
   \<and> DefaultAPISite
        (addAPISite
           \<lparr>APISites = [\<lparr>Name = ''A'', BaseURL = ''u1'', Token = ''t1''\<rparr>],
             DefaultAPISite = ''''\<rparr> ''B'' ''u2'' ''t2'')
       \<noteq> DefaultAPISite \<lparr>APISites = [\<lparr>Name = ''A'', BaseURL = ''u1'', Token = ''t1''\<rparr>],
             DefaultAPISite = ''''\<rparr>"
  by (simp add: addAPISite_def AddOrUpdateAPISite_def)

lemma run_empty_name:
  "run [Add '''' ''u0'' ''t0'']
     = \<lparr>APISites = [\<lparr>Name = '''', BaseURL = ''u0'', Token = ''t0''\<rparr>], DefaultAPISite = ''''\<rparr>
   \<and> DefaultAPISite (run [Add '''' ''u0'' ''t0'', Add ''B'' ''u2'' ''t2'']) = ''B''"
  by (simp add: run_def emptyConfig_def addAPISite_def AddOrUpdateAPISite_def)

text \<open>
  Claim C2, amended. When a site is added to a store with no sites and an empty
  default, \<open>DefaultAPISite\<close> becomes the name of that site; and for every store whose
  \<open>DefaultAPISite\<close> is not empty, adding a site, new or existing, leaves
  \<open>DefaultAPISite\<close> unchanged.
\<close>

theorem addAPISite_default:
  "(APISites c = [] \<and> DefaultAPISite c = '''' \<longrightarrow>
      DefaultAPISite (addAPISite c name url token) = name)
   \<and> (DefaultAPISite c \<noteq> '''' \<longrightarrow>
      DefaultAPISite (addAPISite c name url token) = DefaultAPISite c)"
  by (simp add: AddOrUpdateAPISite_def addAPISite_def Let_def split: option.split)

theorem addAPISite_default_witness:
  "DefaultAPISite (addAPISite \<lparr>APISites = [], DefaultAPISite = ''''\<rparr> ''A'' ''u1'' ''t1'') = ''A''
   \<and> DefaultAPISite
        (addAPISite
           \<lparr>APISites = [\<lparr>Name = ''A'', BaseURL = ''u1'', Token = ''t1''\<rparr>],
             DefaultAPISite = ''A''\<rparr> ''B'' ''u2'' ''t2'') = ''A''
   \<and> DefaultAPISite
        (addAPISite
           \<lparr>APISites = [\<lparr>Name = ''A'', BaseURL = ''u1'', Token = ''t1''\<rparr>],
             DefaultAPISite = ''A''\<rparr> ''A'' ''u2'' ''t2'') = ''A''"
  using addAPISite_default [of "\<lparr>APISites = [], DefaultAPISite = ''''\<rparr>" "''A''" "''u1''" "''t1''"]
        addAPISite_default
          [of "\<lparr>APISites = [\<lparr>Name = ''A'', BaseURL = ''u1'', Token = ''t1''\<rparr>],
                DefaultAPISite = ''A''\<rparr>" "''B''" "''u2''" "''t2''"]
        addAPISite_default
          [of "\<lparr>APISites = [\<lparr>Name = ''A'', BaseURL = ''u1'', Token = ''t1''\<rparr>],
                DefaultAPISite = ''A''\<rparr>" "''A''" "''u2''" "''t2''"]
  by simp

section \<open>The invariants of the store\<close>

lemma AddOrUpdateAPISite_names:
  "map Name (APISites (AddOrUpdateAPISite c name b t))
     = (if name \<in> Name ` set (APISites c) then map Name (APISites c)
        else map Name (APISites c) @ [name])"
proof (cases "find_site name (APISites c)")
  case None
  then have "name \<notin> Name ` set (APISites c)"
    by (simp add: find_site_None)
  with None show ?thesis
    by (simp add: AddOrUpdateAPISite_def)
next
  case (Some i)
  from find_site_Some [OF Some]
  have i: "i < length (APISites c)" "Name (APISites c ! i) = name"
    by simp_all
  then have "name \<in> Name ` set (APISites c)"
    by (metis nth_mem imageI)
  with Some i show ?thesis
    by (simp add: AddOrUpdateAPISite_def map_update list_update_same_conv)
qed

lemma addAPISite_fields:
  "map Name (APISites (addAPISite c name url token))
     = (if name \<in> Name ` set (APISites c) then map Name (APISites c)
        else map Name (APISites c) @ [name])
   \<and> DefaultAPISite (addAPISite c name url token)
     = (if DefaultAPISite c = '''' then name else DefaultAPISite c)"
proof -
  have "DefaultAPISite (AddOrUpdateAPISite c name url token) = DefaultAPISite c"
    by (simp add: AddOrUpdateAPISite_def split: option.split)
  then show ?thesis
    using AddOrUpdateAPISite_names [of c name url token]
    by (simp add: addAPISite_def Let_def)
qed

lemma set_map_Name: "Name ` set sites = set (map Name sites)"
  by simp

lemma addAPISite_invariant:
  assumes "default_valid c" "names_distinct c"
  shows "default_valid (addAPISite c name url token)
       \<and> names_distinct (addAPISite c name url token)"
proof -
  let ?c' = "addAPISite c name url token"
  note f = addAPISite_fields [of c name url token]
  from f have names: "set (map Name (APISites ?c')) = insert name (set (map Name (APISites c)))"
    by (auto split: if_splits)
  from f assms(2) have "names_distinct ?c'"
    by (auto simp: names_distinct_def split: if_splits)
  moreover from f names assms(1) have "default_valid ?c'"
    unfolding default_valid_def set_map_Name by (auto split: if_splits)
  ultimately show ?thesis by simp
qed

lemma setDefaultAPISite_fields:
  "APISites (setDefaultAPISite c name) = APISites c
   \<and> DefaultAPISite (setDefaultAPISite c name)
       = (if name \<in> Name ` set (APISites c) then name else DefaultAPISite c)"
proof (cases "find_site name (APISites c)")
  case None
  then have "name \<notin> Name ` set (APISites c)"
    by (simp add: find_site_None)
  with None show ?thesis
    by (simp add: setDefaultAPISite_def SetDefaultAPISite_def)
next
  case (Some i)
  then have "name \<in> Name ` set (APISites c)"
    using find_site_None [of name "APISites c"] by simp
  with Some show ?thesis
    by (simp add: setDefaultAPISite_def SetDefaultAPISite_def)
qed

lemma setDefaultAPISite_invariant:
  assumes "default_valid c" "names_distinct c"
  shows "default_valid (setDefaultAPISite c name)
       \<and> names_distinct (setDefaultAPISite c name)"
  using assms setDefaultAPISite_fields [of c name]
  by (simp add: default_valid_def names_distinct_def)

lemma RemoveAPISite_found:
  assumes "find_site name (APISites c) = Some i"
  shows "RemoveAPISite c name =
          (True,
           \<lparr>APISites = take i (APISites c) @ drop (i + 1) (APISites c),
             DefaultAPISite =
               (if DefaultAPISite c = name
                then (case take i (APISites c) @ drop (i + 1) (APISites c) of
                        [] \<Rightarrow> '''' | first # _ \<Rightarrow> Name first)
                else DefaultAPISite c)\<rparr>)"
  unfolding first_name_conv using assms by (simp add: RemoveAPISite_def Let_def)

lemma removeAPISite_invariant:
  assumes "default_valid c" "names_distinct c"
  shows "default_valid (removeAPISite c name)
       \<and> names_distinct (removeAPISite c name)"
proof (cases "find_site name (APISites c)")
  case None
  with assms show ?thesis
    by (simp add: removeAPISite_def RemoveAPISite_def)
next
  case (Some i)
  let ?pre = "take i (APISites c)" and ?post = "drop (i + 1) (APISites c)"
  let ?s = "APISites c ! i"
  have split: "APISites c = ?pre @ ?s # ?post"
    by (rule find_site_split [OF Some])
  have s: "Name ?s = name"
    using find_site_Some [OF Some] by simp
  let ?c' = "removeAPISite c name"
  from RemoveAPISite_found [OF Some]
  have sites: "APISites ?c' = ?pre @ ?post"
    and dflt: "DefaultAPISite ?c' =
                 (if DefaultAPISite c = name
                  then (case ?pre @ ?post of [] \<Rightarrow> '''' | first # _ \<Rightarrow> Name first)
                  else DefaultAPISite c)"
    by (simp_all add: removeAPISite_def)
  have "distinct (map Name (?pre @ ?s # ?post))"
    using assms(2) split by (simp add: names_distinct_def)
  then have "distinct (map Name (?pre @ ?post))"
    by simp
  then have d: "names_distinct ?c'"
    by (simp add: names_distinct_def sites)
  have v: "default_valid ?c'"
  proof (cases "DefaultAPISite c = name")
    case True
    then have "DefaultAPISite ?c' = (case ?pre @ ?post of [] \<Rightarrow> '''' | first # _ \<Rightarrow> Name first)"
      by (simp add: dflt)
    then show ?thesis
      unfolding default_valid_def sites by (cases "?pre @ ?post") auto
  next
    case False
    then have same: "DefaultAPISite ?c' = DefaultAPISite c"
      by (simp add: dflt)
    show ?thesis
      unfolding default_valid_def same sites
    proof
      assume "DefaultAPISite c \<noteq> ''''"
      with assms(1) have "DefaultAPISite c \<in> Name ` set (APISites c)"
        by (simp add: default_valid_def)
      then have "DefaultAPISite c \<in> Name ` set (?pre @ ?s # ?post)"
        using split by simp
      with False s show "DefaultAPISite c \<in> Name ` set (?pre @ ?post)"
        by auto
    qed
  qed
  from v d show ?thesis by simp
qed

lemma exec_invariant:
  "default_valid c \<Longrightarrow> names_distinct c \<Longrightarrow>
     default_valid (exec c cmd) \<and> names_distinct (exec c cmd)"
  by (cases cmd)
     (simp_all add: addAPISite_invariant setDefaultAPISite_invariant removeAPISite_invariant)

lemma foldl_exec_invariant:
  "default_valid c \<Longrightarrow> names_distinct c \<Longrightarrow>
     default_valid (foldl exec c cmds) \<and> names_distinct (foldl exec c cmds)"
proof (induction cmds arbitrary: c)
  case Nil
  then show ?case by simp
next
  case (Cons cmd cmds)
  from exec_invariant [OF Cons.prems, of cmd] Cons.IH [of "exec c cmd"]
  show ?case by simp
qed

text \<open>
  Claim C5. In every store reached from the empty store by a sequence of the commands
  add, set-default and remove: when \<open>DefaultAPISite\<close> is not empty, some site of the
  list has exactly that name; and the names of the sites are pairwise distinct.
\<close>

theorem run_invariant:
  "(DefaultAPISite (run cmds) \<noteq> '''' \<longrightarrow>
      (\<exists>site \<in> set (APISites (run cmds)). Name site = DefaultAPISite (run cmds)))
   \<and> distinct (map Name (APISites (run cmds)))"
proof -
  have "default_valid (run cmds) \<and> names_distinct (run cmds)"
    unfolding run_def
    by (rule foldl_exec_invariant)
       (simp_all add: default_valid_def names_distinct_def emptyConfig_def)
  then show ?thesis
    by (auto simp: default_valid_def names_distinct_def)
qed

theorem run_invariant_witness:
  "run [Add ''A'' ''u1'' ''t1'', Add ''B'' ''u2'' ''t2'', SetDefault ''B'', Remove ''B'']
     = \<lparr>APISites = [\<lparr>Name = ''A'', BaseURL = ''u1'', Token = ''t1''\<rparr>], DefaultAPISite = ''A''\<rparr>
   \<and> DefaultAPISite (run [Add ''A'' ''u1'' ''t1'', Add ''B'' ''u2'' ''t2'', SetDefault ''B'', Remove ''B'']) \<noteq> ''''
   \<and> (\<exists>site \<in> set (APISites (run [Add ''A'' ''u1'' ''t1'', Add ''B'' ''u2'' ''t2'', SetDefault ''B'', Remove ''B''])).
         Name site = DefaultAPISite (run [Add ''A'' ''u1'' ''t1'', Add ''B'' ''u2'' ''t2'', SetDefault ''B'', Remove ''B'']))
   \<and> distinct (map Name (APISites (run [Add ''A'' ''u1'' ''t1'', Add ''B'' ''u2'' ''t2'', SetDefault ''B'', Remove ''B''])))"
proof -
  have r: "run [Add ''A'' ''u1'' ''t1'', Add ''B'' ''u2'' ''t2'', SetDefault ''B'', Remove ''B'']
     = \<lparr>APISites = [\<lparr>Name = ''A'', BaseURL = ''u1'', Token = ''t1''\<rparr>], DefaultAPISite = ''A''\<rparr>"
    by (simp add: run_def emptyConfig_def addAPISite_def AddOrUpdateAPISite_def
          setDefaultAPISite_def SetDefaultAPISite_def removeAPISite_def RemoveAPISite_def)
  show ?thesis
    using run_invariant [of "[Add ''A'' ''u1'' ''t1'', Add ''B'' ''u2'' ''t2'', SetDefault ''B'', Remove ''B'']"]
    by (simp add: r)
qed

section \<open>Loading the store: the outcomes\<close>

text \<open>
  \<open>LoadConfig\<close> alone reports a missing file as a read error; the empty store for a
  missing file comes from the test \<^verbatim>\<open>os.IsNotExist\<close> that \<open>loadConfig\<close> makes first.
\<close>

lemma LoadConfig_missing:
  "path_error w filename = None \<Longrightarrow> names w filename = None \<Longrightarrow>
     LoadConfig unmarshal w filename = Inl (ReadConfigError ErrNotExist)"
  by (simp add: LoadConfig_def os_ReadFile_def)

text \<open>
  That test is true of the error for a missing file only. So claim C6 fails as it is
  stated: with no configuration file and a home directory that may not be searched,
  \<^verbatim>\<open>os.Stat\<close> fails with a permission error, \<open>LoadConfig\<close> runs, and loading fails
  with the read error although the file does not exist.
\<close>

theorem loadConfig_missing_counterexample:
  "names
     \<lparr>goos = ''linux'', homeDir = Some ''/home/u'', environ = Map.empty,
       names = Map.empty, path_error = [''/home/u/.chcc.yaml'' \<mapsto> ErrPermission],
       store = (\<lambda>_. \<lparr>content = [], readable = False, appendable = False\<rparr>),
       setx_ok = (\<lambda>_. False), user_environ = Map.empty\<rparr>
     ''/home/u/.chcc.yaml'' = None
   \<and> loadConfig (\<lambda>dir file. dir @ ''/'' @ file)
        (\<lambda>data. if data = ''api_sites: []'' then Some emptyConfig else None)
        \<lparr>goos = ''linux'', homeDir = Some ''/home/u'', environ = Map.empty,
          names = Map.empty, path_error = [''/home/u/.chcc.yaml'' \<mapsto> ErrPermission],
          store = (\<lambda>_. \<lparr>content = [], readable = False, appendable = False\<rparr>),
          setx_ok = (\<lambda>_. False), user_environ = Map.empty\<rparr>
       = Inl (ReadConfigError ErrPermission)"
  by (simp add: loadConfig_def getConfigFilePath_def os_IsNotExist_def os_Stat_def
        LoadConfig_def os_ReadFile_def)

text \<open>
  Claim C6, amended. Once the home directory is known (the process ends before any
  file is looked at when it is not), loading the file \<^verbatim>\<open>.chcc.yaml\<close> there behaves
  as follows. When \<^verbatim>\<open>os.Stat\<close> finds that the file does not exist (the path can be
  followed and has no file, or a directory on it is missing), the result is the empty
  store and not an error. When the path cannot be followed for another reason, whether
  or not a file is there, or the file exists and cannot be read, loading fails with
  the read error ("failed to read config file", the IOError). When the contents are
  not accepted by the YAML parser, loading fails with the parse error ("failed to
  parse YAML", the ParseError). Otherwise the parsed store is returned.
\<close>

theorem loadConfig_spec:
  "(homeDir w = None \<longrightarrow> loadConfig join unmarshal w = Inl UserHomeDirFatal)
   \<and> (\<forall>home configFile.
         homeDir w = Some home \<and> configFile = join home ''.chcc.yaml'' \<longrightarrow>
           ((path_error w configFile = None \<and> names w configFile = None)
              \<or> path_error w configFile = Some ErrNotExist \<longrightarrow>
                loadConfig join unmarshal w = Inr \<lparr>APISites = [], DefaultAPISite = ''''\<rparr>)
         \<and> (\<forall>err. path_error w configFile = Some err \<and> err \<noteq> ErrNotExist \<longrightarrow>
                loadConfig join unmarshal w = Inl (ReadConfigError err))
         \<and> (\<forall>i. path_error w configFile = None \<and> names w configFile = Some i
                  \<and> \<not> readable (store w i) \<longrightarrow>
                loadConfig join unmarshal w = Inl (ReadConfigError ErrPermission))
         \<and> (\<forall>i. path_error w configFile = None \<and> names w configFile = Some i
                  \<and> readable (store w i) \<and> unmarshal (content (store w i)) = None \<longrightarrow>
                loadConfig join unmarshal w = Inl ParseYAMLError)
         \<and> (\<forall>i c. path_error w configFile = None \<and> names w configFile = Some i
                  \<and> readable (store w i) \<and> unmarshal (content (store w i)) = Some c \<longrightarrow>
                loadConfig join unmarshal w = Inr c))"
  by (auto simp: loadConfig_def getConfigFilePath_def os_IsNotExist_def os_Stat_def
        LoadConfig_def os_ReadFile_def emptyConfig_def)

theorem loadConfig_spec_witness:
  "loadConfig (\<lambda>dir file. dir @ ''/'' @ file)
        (\<lambda>data. if data = ''api_sites: []'' then Some emptyConfig else None)
        \<lparr>goos = ''linux'', homeDir = None, environ = Map.empty,
         names = Map.empty,
         path_error = Map.empty,
         store = (\<lambda>_. \<lparr>content = [], readable = False, appendable = False\<rparr>),
         setx_ok = (\<lambda>_. False), user_environ = Map.empty\<rparr>
       = Inl UserHomeDirFatal
   \<and> loadConfig (\<lambda>dir file. dir @ ''/'' @ file)
        (\<lambda>data. if data = ''api_sites: []'' then Some emptyConfig else None)
        \<lparr>goos = ''linux'', homeDir = Some ''/home/u'', environ = Map.empty,
         names = Map.empty,
         path_error = Map.empty,
         store = (\<lambda>_. \<lparr>content = [], readable = False, appendable = False\<rparr>),
         setx_ok = (\<lambda>_. False), user_environ = Map.empty\<rparr>
       = Inr \<lparr>APISites = [], DefaultAPISite = ''''\<rparr>
   \<and> loadConfig (\<lambda>dir file. dir @ ''/'' @ file)
        (\<lambda>data. if data = ''api_sites: []'' then Some emptyConfig else None)
        \<lparr>goos = ''linux'', homeDir = Some ''/home/u'', environ = Map.empty,
         names = Map.empty,
         path_error = [''/home/u/.chcc.yaml'' \<mapsto> ErrNotExist],
         store = (\<lambda>_. \<lparr>content = [], readable = False, appendable = False\<rparr>),
         setx_ok = (\<lambda>_. False), user_environ = Map.empty\<rparr>
       = Inr \<lparr>APISites = [], DefaultAPISite = ''''\<rparr>
   \<and> loadConfig (\<lambda>dir file. dir @ ''/'' @ file)
        (\<lambda>data. if data = ''api_sites: []'' then Some emptyConfig else None)
        \<lparr>goos = ''linux'', homeDir = Some ''/home/u'', environ = Map.empty,
         names = Map.empty,
         path_error = [''/home/u/.chcc.yaml'' \<mapsto> ErrPermission],
         store = (\<lambda>_. \<lparr>content = [], readable = False, appendable = False\<rparr>),
         setx_ok = (\<lambda>_. False), user_environ = Map.empty\<rparr>
       = Inl (ReadConfigError ErrPermission)
   \<and> loadConfig (\<lambda>dir file. dir @ ''/'' @ file)
        (\<lambda>data. if data = ''api_sites: []'' then Some emptyConfig else None)
        \<lparr>goos = ''linux'', homeDir = Some ''/home/u'', environ = Map.empty,
         names = [''/home/u/.chcc.yaml'' \<mapsto> 1],
         path_error = Map.empty,
         store = (\<lambda>_. \<lparr>content = [], readable = False, appendable = False\<rparr>)(1 := \<lparr>content = ''api_sites: []'', readable = False, appendable = False\<rparr>),
         setx_ok = (\<lambda>_. False), user_environ = Map.empty\<rparr>
       = Inl (ReadConfigError ErrPermission)
   \<and> loadConfig (\<lambda>dir file. dir @ ''/'' @ file)
        (\<lambda>data. if data = ''api_sites: []'' then Some emptyConfig else None)
        \<lparr>goos = ''linux'', homeDir = Some ''/home/u'', environ = Map.empty,
         names = [''/home/u/.chcc.yaml'' \<mapsto> 1],
         path_error = Map.empty,
         store = (\<lambda>_. \<lparr>content = [], readable = False, appendable = False\<rparr>)(1 := \<lparr>content = ''api_sites: ['', readable = True, appendable = True\<rparr>),
         setx_ok = (\<lambda>_. False), user_environ = Map.empty\<rparr>
       = Inl ParseYAMLError
   \<and> loadConfig (\<lambda>dir file. dir @ ''/'' @ file)
        (\<lambda>data. if data = ''api_sites: []'' then Some emptyConfig else None)
        \<lparr>goos = ''linux'', homeDir = Some ''/home/u'', environ = Map.empty,
         names = [''/home/u/.chcc.yaml'' \<mapsto> 1],
         path_error = Map.empty,
         store = (\<lambda>_. \<lparr>content = [], readable = False, appendable = False\<rparr>)(1 := \<lparr>content = ''api_sites: []'', readable = True, appendable = True\<rparr>),
         setx_ok = (\<lambda>_. False), user_environ = Map.empty\<rparr>
       = Inr emptyConfig"
  using loadConfig_spec
          [of "\<lparr>goos = ''linux'', homeDir = None, environ = Map.empty,
                 names = Map.empty,
                 path_error = Map.empty,
                 store = (\<lambda>_. \<lparr>content = [], readable = False, appendable = False\<rparr>),
                 setx_ok = (\<lambda>_. False), user_environ = Map.empty\<rparr>"
              "\<lambda>dir file. dir @ ''/'' @ file"
              "\<lambda>data. if data = ''api_sites: []'' then Some emptyConfig else None"]
        loadConfig_spec
          [of "\<lparr>goos = ''linux'', homeDir = Some ''/home/u'', environ = Map.empty,
                 names = Map.empty,
                 path_error = Map.empty,
                 store = (\<lambda>_. \<lparr>content = [], readable = False, appendable = False\<rparr>),
                 setx_ok = (\<lambda>_. False), user_environ = Map.empty\<rparr>"
              "\<lambda>dir file. dir @ ''/'' @ file"
              "\<lambda>data. if data = ''api_sites: []'' then Some emptyConfig else None"]
        loadConfig_spec
          [of "\<lparr>goos = ''linux'', homeDir = Some ''/home/u'', environ = Map.empty,
                 names = Map.empty,
                 path_error = [''/home/u/.chcc.yaml'' \<mapsto> ErrNotExist],
                 store = (\<lambda>_. \<lparr>content = [], readable = False, appendable = False\<rparr>),
                 setx_ok = (\<lambda>_. False), user_environ = Map.empty\<rparr>"
              "\<lambda>dir file. dir @ ''/'' @ file"
              "\<lambda>data. if data = ''api_sites: []'' then Some emptyConfig else None"]
        loadConfig_spec
          [of "\<lparr>goos = ''linux'', homeDir = Some ''/home/u'', environ = Map.empty,
                 names = Map.empty,
                 path_error = [''/home/u/.chcc.yaml'' \<mapsto> ErrPermission],
                 store = (\<lambda>_. \<lparr>content = [], readable = False, appendable = False\<rparr>),
                 setx_ok = (\<lambda>_. False), user_environ = Map.empty\<rparr>"
              "\<lambda>dir file. dir @ ''/'' @ file"
              "\<lambda>data. if data = ''api_sites: []'' then Some emptyConfig else None"]
        loadConfig_spec
          [of "\<lparr>goos = ''linux'', homeDir = Some ''/home/u'', environ = Map.empty,
                 names = [''/home/u/.chcc.yaml'' \<mapsto> 1],
                 path_error = Map.empty,
                 store = (\<lambda>_. \<lparr>content = [], readable = False, appendable = False\<rparr>)(1 := \<lparr>content = ''api_sites: []'', readable = False, appendable = False\<rparr>),
                 setx_ok = (\<lambda>_. False), user_environ = Map.empty\<rparr>"
              "\<lambda>dir file. dir @ ''/'' @ file"
              "\<lambda>data. if data = ''api_sites: []'' then Some emptyConfig else None"]
        loadConfig_spec
          [of "\<lparr>goos = ''linux'', homeDir = Some ''/home/u'', environ = Map.empty,
                 names = [''/home/u/.chcc.yaml'' \<mapsto> 1],
                 path_error = Map.empty,
                 store = (\<lambda>_. \<lparr>content = [], readable = False, appendable = False\<rparr>)(1 := \<lparr>content = ''api_sites: ['', readable = True, appendable = True\<rparr>),
                 setx_ok = (\<lambda>_. False), user_environ = Map.empty\<rparr>"
              "\<lambda>dir file. dir @ ''/'' @ file"
              "\<lambda>data. if data = ''api_sites: []'' then Some emptyConfig else None"]
        loadConfig_spec
          [of "\<lparr>goos = ''linux'', homeDir = Some ''/home/u'', environ = Map.empty,
                 names = [''/home/u/.chcc.yaml'' \<mapsto> 1],
                 path_error = Map.empty,
                 store = (\<lambda>_. \<lparr>content = [], readable = False, appendable = False\<rparr>)(1 := \<lparr>content = ''api_sites: []'', readable = True, appendable = True\<rparr>),
                 setx_ok = (\<lambda>_. False), user_environ = Map.empty\<rparr>"
              "\<lambda>dir file. dir @ ''/'' @ file"
              "\<lambda>data. if data = ''api_sites: []'' then Some emptyConfig else None"]
  by simp

section \<open>Appending to the shell startup files\<close>

lemma os_Setenv_fields:
  "homeDir (os_Setenv k v w) = homeDir w \<and> names (os_Setenv k v w) = names w
   \<and> store (os_Setenv k v w) = store w \<and> path_error (os_Setenv k v w) = path_error w
   \<and> goos (os_Setenv k v w) = goos w"
  by (simp add: os_Setenv_def)

lemma append_rc_fields:
  "names (append_rc lines w rcFile) = names w
   \<and> path_error (append_rc lines w rcFile) = path_error w
   \<and> store (append_rc lines w rcFile) i =
       (if path_error w rcFile = None \<and> names w rcFile = Some i \<and> appendable (store w i)
        then (store w i)\<lparr>content := content (store w i) @ lines\<rparr>
        else store w i)"
  by (simp add: append_rc_def os_Stat_def os_OpenFile_append_def WriteString_def
        split: option.split)

text \<open>
  Claim C9. On the Unix path, when the home directory cannot be determined the
  operation fails with the home directory error (the EnvError) and no file is created
  or changed. Otherwise it succeeds; no file is created, so a missing startup file
  stays missing; and every file afterwards is the file before with, at its end, one
  copy of the block
  \<^verbatim>\<open># CHCC API Configuration\<close>, \<^verbatim>\<open>export ANTHROPIC_BASE_URL="<base url>"\<close>,
  \<^verbatim>\<open>export ANTHROPIC_AUTH_TOKEN="<token>"\<close> (a line break before the first line and
  after each line) for \<^verbatim>\<open>~/.bashrc\<close> when that path exists, opens for appending and
  is this file, and one more for \<^verbatim>\<open>~/.zshrc\<close> likewise. A candidate that cannot be
  opened is thus left as it was while the other one is still written; a file that is
  neither candidate is unchanged; and when the two candidates are one file (a link),
  it receives the block twice.
\<close>

theorem setUnixEnvVars_spec:
  "(homeDir w = None \<longrightarrow>
      fst (setUnixEnvVars baseURL authToken w) = Inl HomeDirError
    \<and> names (snd (setUnixEnvVars baseURL authToken w)) = names w
    \<and> store (snd (setUnixEnvVars baseURL authToken w)) = store w)
   \<and> (\<forall>home. homeDir w = Some home \<longrightarrow>
        fst (setUnixEnvVars baseURL authToken w) = Inr ()
      \<and> names (snd (setUnixEnvVars baseURL authToken w)) = names w
      \<and> (\<forall>i.
           store (snd (setUnixEnvVars baseURL authToken w)) i =
             (store w i)\<lparr>content :=
                content (store w i)
                @ (if path_error w (home @ ''/.bashrc'') = None
                      \<and> names w (home @ ''/.bashrc'') = Some i \<and> appendable (store w i)
                   then [CHR 0x0A] @ ''# CHCC API Configuration'' @ [CHR 0x0A]
                        @ ''export ANTHROPIC_BASE_URL='' @ [CHR 0x22] @ baseURL @ [CHR 0x22]
                        @ [CHR 0x0A]
                        @ ''export ANTHROPIC_AUTH_TOKEN='' @ [CHR 0x22] @ authToken @ [CHR 0x22]
                        @ [CHR 0x0A]
                   else [])
                @ (if path_error w (home @ ''/.zshrc'') = None
                      \<and> names w (home @ ''/.zshrc'') = Some i \<and> appendable (store w i)
                   then [CHR 0x0A] @ ''# CHCC API Configuration'' @ [CHR 0x0A]
                        @ ''export ANTHROPIC_BASE_URL='' @ [CHR 0x22] @ baseURL @ [CHR 0x22]
                        @ [CHR 0x0A]
                        @ ''export ANTHROPIC_AUTH_TOKEN='' @ [CHR 0x22] @ authToken @ [CHR 0x22]
                        @ [CHR 0x0A]
                   else [])\<rparr>))"
proof (cases "homeDir w")
  case None
  then show ?thesis
    by (simp add: setUnixEnvVars_def Let_def os_Setenv_fields)
next
  case (Some home)
  let ?w2 = "os_Setenv ''ANTHROPIC_AUTH_TOKEN'' authToken
               (os_Setenv ''ANTHROPIC_BASE_URL'' baseURL w)"
  let ?lines = "exportLines baseURL authToken"
  let ?w3 = "append_rc ?lines ?w2 (home @ ''/.bashrc'')"
  have res: "setUnixEnvVars baseURL authToken w =
               (Inr (), append_rc ?lines ?w3 (home @ ''/.zshrc''))"
    using Some by (simp add: setUnixEnvVars_def Let_def os_Setenv_fields)
  have w2: "names ?w2 = names w" "store ?w2 = store w" "path_error ?w2 = path_error w"
    by (simp_all add: os_Setenv_fields)
  have w3: "names ?w3 = names w" "path_error ?w3 = path_error w"
    by (simp_all add: append_rc_fields w2)
  have s3: "store ?w3 i =
       (if path_error w (home @ ''/.bashrc'') = None \<and> names w (home @ ''/.bashrc'') = Some i
           \<and> appendable (store w i)
        then (store w i)\<lparr>content := content (store w i) @ ?lines\<rparr>
        else store w i)" for i
    using append_rc_fields [of ?lines ?w2 "home @ ''/.bashrc''" i] by (simp add: w2)
  have s4: "store (append_rc ?lines ?w3 (home @ ''/.zshrc'')) i =
       (if path_error w (home @ ''/.zshrc'') = None \<and> names w (home @ ''/.zshrc'') = Some i
           \<and> appendable (store ?w3 i)
        then (store ?w3 i)\<lparr>content := content (store ?w3 i) @ ?lines\<rparr>
        else store ?w3 i)" for i
    using append_rc_fields [of ?lines ?w3 "home @ ''/.zshrc''" i] by (simp add: w3)
  have names': "names (snd (setUnixEnvVars baseURL authToken w)) = names w"
    unfolding res snd_conv by (simp add: append_rc_fields w2)
  have store': "store (snd (setUnixEnvVars baseURL authToken w)) i =
             (store w i)\<lparr>content :=
                content (store w i)
                @ (if path_error w (home @ ''/.bashrc'') = None
                      \<and> names w (home @ ''/.bashrc'') = Some i \<and> appendable (store w i)
                   then ?lines else [])
                @ (if path_error w (home @ ''/.zshrc'') = None
                      \<and> names w (home @ ''/.zshrc'') = Some i \<and> appendable (store w i)
                   then ?lines else [])\<rparr>" for i
    unfolding res snd_conv s4 s3 by simp
  have lines: "?lines = [CHR 0x0A] @ ''# CHCC API Configuration'' @ [CHR 0x0A]
                        @ ''export ANTHROPIC_BASE_URL='' @ [CHR 0x22] @ baseURL @ [CHR 0x22]
                        @ [CHR 0x0A]
                        @ ''export ANTHROPIC_AUTH_TOKEN='' @ [CHR 0x22] @ authToken @ [CHR 0x22]
                        @ [CHR 0x0A]"
    by (simp add: exportLines_def)
  from Some res names' store' show ?thesis
    unfolding lines by simp
qed

theorem setUnixEnvVars_spec_witness:
  "fst (setUnixEnvVars ''u1'' ''t1''
        \<lparr>goos = ''linux'', homeDir = None, environ = Map.empty,
         names = Map.empty,
         path_error = Map.empty,
         store = (\<lambda>_. \<lparr>content = [], readable = False, appendable = False\<rparr>),
         setx_ok = (\<lambda>_. False), user_environ = Map.empty\<rparr>)
     = Inl HomeDirError
   \<and> fst (setUnixEnvVars ''u1'' ''t1''
        \<lparr>goos = ''linux'', homeDir = Some ''/home/u'', environ = Map.empty,
         names = [''/home/u/.bashrc'' \<mapsto> 1, ''/home/u/.zshrc'' \<mapsto> 2],
         path_error = Map.empty,
         store = (\<lambda>_. \<lparr>content = [], readable = False, appendable = False\<rparr>)(1 := \<lparr>content = ''# bash'', readable = True, appendable = False\<rparr>, 2 := \<lparr>content = ''# zsh'', readable = True, appendable = True\<rparr>),
         setx_ok = (\<lambda>_. False), user_environ = Map.empty\<rparr>)
     = Inr ()
   \<and> store (snd (setUnixEnvVars ''u1'' ''t1''
        \<lparr>goos = ''linux'', homeDir = Some ''/home/u'', environ = Map.empty,
         names = [''/home/u/.bashrc'' \<mapsto> 1, ''/home/u/.zshrc'' \<mapsto> 2],
         path_error = Map.empty,
         store = (\<lambda>_. \<lparr>content = [], readable = False, appendable = False\<rparr>)(1 := \<lparr>content = ''# bash'', readable = True, appendable = False\<rparr>, 2 := \<lparr>content = ''# zsh'', readable = True, appendable = True\<rparr>),
         setx_ok = (\<lambda>_. False), user_environ = Map.empty\<rparr>)) 1
     = \<lparr>content = ''# bash'', readable = True, appendable = False\<rparr>
   \<and> store (snd (setUnixEnvVars ''u1'' ''t1''
        \<lparr>goos = ''linux'', homeDir = Some ''/home/u'', environ = Map.empty,
         names = [''/home/u/.bashrc'' \<mapsto> 1, ''/home/u/.zshrc'' \<mapsto> 2],
         path_error = Map.empty,
         store = (\<lambda>_. \<lparr>content = [], readable = False, appendable = False\<rparr>)(1 := \<lparr>content = ''# bash'', readable = True, appendable = False\<rparr>, 2 := \<lparr>content = ''# zsh'', readable = True, appendable = True\<rparr>),
         setx_ok = (\<lambda>_. False), user_environ = Map.empty\<rparr>)) 2
     = \<lparr>content = ''# zsh'' @ [CHR 0x0A] @ ''# CHCC API Configuration'' @ [CHR 0x0A] @ ''export ANTHROPIC_BASE_URL='' @ [CHR 0x22] @ ''u1'' @ [CHR 0x22, CHR 0x0A] @ ''export ANTHROPIC_AUTH_TOKEN='' @ [CHR 0x22] @ ''t1'' @ [CHR 0x22, CHR 0x0A],
        readable = True, appendable = True\<rparr>
   \<and> names (snd (setUnixEnvVars ''u1'' ''t1''
        \<lparr>goos = ''linux'', homeDir = Some ''/home/u'', environ = Map.empty,
         names = [''/home/u/.zshrc'' \<mapsto> 2],
         path_error = Map.empty,
         store = (\<lambda>_. \<lparr>content = [], readable = False, appendable = False\<rparr>)(2 := \<lparr>content = ''# zsh'', readable = True, appendable = True\<rparr>),
         setx_ok = (\<lambda>_. False), user_environ = Map.empty\<rparr>)) ''/home/u/.bashrc''
     = None
   \<and> store (snd (setUnixEnvVars ''u1'' ''t1''
        \<lparr>goos = ''linux'', homeDir = Some ''/home/u'', environ = Map.empty,
         names = [''/home/u/.zshrc'' \<mapsto> 2],
         path_error = Map.empty,
         store = (\<lambda>_. \<lparr>content = [], readable = False, appendable = False\<rparr>)(2 := \<lparr>content = ''# zsh'', readable = True, appendable = True\<rparr>),
         setx_ok = (\<lambda>_. False), user_environ = Map.empty\<rparr>)) 2
     = \<lparr>content = ''# zsh'' @ [CHR 0x0A] @ ''# CHCC API Configuration'' @ [CHR 0x0A] @ ''export ANTHROPIC_BASE_URL='' @ [CHR 0x22] @ ''u1'' @ [CHR 0x22, CHR 0x0A] @ ''export ANTHROPIC_AUTH_TOKEN='' @ [CHR 0x22] @ ''t1'' @ [CHR 0x22, CHR 0x0A],
        readable = True, appendable = True\<rparr>
   \<and> store (snd (setUnixEnvVars ''u1'' ''t1''
        \<lparr>goos = ''linux'', homeDir = Some ''/home/u'', environ = Map.empty,
         names = [''/home/u/.bashrc'' \<mapsto> 1, ''/home/u/.zshrc'' \<mapsto> 1],
         path_error = Map.empty,
         store = (\<lambda>_. \<lparr>content = [], readable = False, appendable = False\<rparr>)(1 := \<lparr>content = ''# rc'', readable = True, appendable = True\<rparr>),
         setx_ok = (\<lambda>_. False), user_environ = Map.empty\<rparr>)) 1
     = \<lparr>content = ''# rc'' @ [CHR 0x0A] @ ''# CHCC API Configuration'' @ [CHR 0x0A] @ ''export ANTHROPIC_BASE_URL='' @ [CHR 0x22] @ ''u1'' @ [CHR 0x22, CHR 0x0A] @ ''export ANTHROPIC_AUTH_TOKEN='' @ [CHR 0x22] @ ''t1'' @ [CHR 0x22, CHR 0x0A]
          @ [CHR 0x0A] @ ''# CHCC API Configuration'' @ [CHR 0x0A] @ ''export ANTHROPIC_BASE_URL='' @ [CHR 0x22] @ ''u1'' @ [CHR 0x22, CHR 0x0A] @ ''export ANTHROPIC_AUTH_TOKEN='' @ [CHR 0x22] @ ''t1'' @ [CHR 0x22, CHR 0x0A],
        readable = True, appendable = True\<rparr>"
  using setUnixEnvVars_spec
          [of "\<lparr>goos = ''linux'', homeDir = None, environ = Map.empty,
                 names = Map.empty,
                 path_error = Map.empty,
                 store = (\<lambda>_. \<lparr>content = [], readable = False, appendable = False\<rparr>),
                 setx_ok = (\<lambda>_. False), user_environ = Map.empty\<rparr>"
              "''u1''" "''t1''"]
        setUnixEnvVars_spec
          [of "\<lparr>goos = ''linux'', homeDir = Some ''/home/u'', environ = Map.empty,
                 names = [''/home/u/.bashrc'' \<mapsto> 1, ''/home/u/.zshrc'' \<mapsto> 2],
                 path_error = Map.empty,
                 store = (\<lambda>_. \<lparr>content = [], readable = False, appendable = False\<rparr>)(1 := \<lparr>content = ''# bash'', readable = True, appendable = False\<rparr>, 2 := \<lparr>content = ''# zsh'', readable = True, appendable = True\<rparr>),
                 setx_ok = (\<lambda>_. False), user_environ = Map.empty\<rparr>"
              "''u1''" "''t1''"]
        setUnixEnvVars_spec
          [of "\<lparr>goos = ''linux'', homeDir = Some ''/home/u'', environ = Map.empty,
                 names = [''/home/u/.zshrc'' \<mapsto> 2],
                 path_error = Map.empty,
                 store = (\<lambda>_. \<lparr>content = [], readable = False, appendable = False\<rparr>)(2 := \<lparr>content = ''# zsh'', readable = True, appendable = True\<rparr>),
                 setx_ok = (\<lambda>_. False), user_environ = Map.empty\<rparr>"
              "''u1''" "''t1''"]
        setUnixEnvVars_spec
          [of "\<lparr>goos = ''linux'', homeDir = Some ''/home/u'', environ = Map.empty,
                 names = [''/home/u/.bashrc'' \<mapsto> 1, ''/home/u/.zshrc'' \<mapsto> 1],
                 path_error = Map.empty,
                 store = (\<lambda>_. \<lparr>content = [], readable = False, appendable = False\<rparr>)(1 := \<lparr>content = ''# rc'', readable = True, appendable = True\<rparr>),
                 setx_ok = (\<lambda>_. False), user_environ = Map.empty\<rparr>"
              "''u1''" "''t1''"]
  by simp

section \<open>Environment propagation on platforms other than Windows\<close>

text \<open>
  \<open>SetEnvironmentVariables\<close> tests \<^verbatim>\<open>runtime.GOOS == "windows"\<close> and takes the Unix
  path for every other value. So claim C8 fails as it is stated: on Plan 9, which the
  command itself calls an unsupported OS, the call for an existing site with a home
  directory returns nil and reports no failure.
\<close>

theorem SetEnvironmentVariables_unsupported_counterexample:
  "platform_of ''plan9'' = Unsupported
   \<and> GetAPISiteByName
        \<lparr>APISites = [\<lparr>Name = ''A'', BaseURL = ''u1'', Token = ''t1''\<rparr>],
          DefaultAPISite = ''A''\<rparr> ''A''
       = Some \<lparr>Name = ''A'', BaseURL = ''u1'', Token = ''t1''\<rparr>
   \<and> fst (SetEnvironmentVariables
        \<lparr>APISites = [\<lparr>Name = ''A'', BaseURL = ''u1'', Token = ''t1''\<rparr>],
          DefaultAPISite = ''A''\<rparr> ''A''
        \<lparr>goos = ''plan9'', homeDir = Some ''/usr/glenda'', environ = Map.empty,
         names = Map.empty,
         path_error = Map.empty,
         store = (\<lambda>_. \<lparr>content = [], readable = False, appendable = False\<rparr>),
         setx_ok = (\<lambda>_. False), user_environ = Map.empty\<rparr>)
       = Inr ()"
  by (simp add: platform_of_def GetAPISiteByName_def SetEnvironmentVariables_def
        setUnixEnvVars_def os_Setenv_def Let_def)

lemma setUnixEnvVars_result:
  "fst (setUnixEnvVars baseURL authToken w)
     = (if homeDir w = None then Inl HomeDirError else Inr ())"
  by (cases "homeDir w") (simp_all add: setUnixEnvVars_def Let_def os_Setenv_fields)

text \<open>
  Claim C8, amended. When \<open>SetEnvironmentVariables\<close> is called for an existing site
  on a platform other than Windows, an unsupported or unknown one included, it returns
  (it does not crash) and does what it does on a Unix-like platform: it reports failure
  exactly when the home directory cannot be determined, and success otherwise.
\<close>

theorem SetEnvironmentVariables_not_windows:
  assumes "platform_of (goos w) \<noteq> WindowsLike"
    and "GetAPISiteByName c siteName = Some site"
  shows "SetEnvironmentVariables c siteName w = setUnixEnvVars (BaseURL site) (Token site) w
       \<and> fst (SetEnvironmentVariables c siteName w)
           = (if homeDir w = None then Inl HomeDirError else Inr ())"
proof -
  from assms(1) have "goos w \<noteq> ''windows''"
    by (auto simp: platform_of_def)
  with assms(2)
  have "SetEnvironmentVariables c siteName w = setUnixEnvVars (BaseURL site) (Token site) w"
    by (simp add: SetEnvironmentVariables_def Let_def)
  then show ?thesis
    by (simp add: setUnixEnvVars_result)
qed

theorem SetEnvironmentVariables_not_windows_witness:
  "fst (SetEnvironmentVariables
        \<lparr>APISites = [\<lparr>Name = ''A'', BaseURL = ''u1'', Token = ''t1''\<rparr>],
          DefaultAPISite = ''A''\<rparr> ''A''
        \<lparr>goos = ''plan9'', homeDir = None, environ = Map.empty,
         names = Map.empty,
         path_error = Map.empty,
         store = (\<lambda>_. \<lparr>content = [], readable = False, appendable = False\<rparr>),
         setx_ok = (\<lambda>_. False), user_environ = Map.empty\<rparr>)
     = Inl HomeDirError
   \<and> fst (SetEnvironmentVariables
        \<lparr>APISites = [\<lparr>Name = ''A'', BaseURL = ''u1'', Token = ''t1''\<rparr>],
          DefaultAPISite = ''A''\<rparr> ''A''
        \<lparr>goos = ''plan9'', homeDir = Some ''/usr/glenda'', environ = Map.empty,
         names = Map.empty,
         path_error = Map.empty,
         store = (\<lambda>_. \<lparr>content = [], readable = False, appendable = False\<rparr>),
         setx_ok = (\<lambda>_. False), user_environ = Map.empty\<rparr>)
     = Inr ()"
proof -
  have p: "platform_of ''plan9'' \<noteq> WindowsLike"
    by (simp add: platform_of_def)
  have g: "GetAPISiteByName
        \<lparr>APISites = [\<lparr>Name = ''A'', BaseURL = ''u1'', Token = ''t1''\<rparr>],
          DefaultAPISite = ''A''\<rparr> ''A''
       = Some \<lparr>Name = ''A'', BaseURL = ''u1'', Token = ''t1''\<rparr>"
    by (simp add: GetAPISiteByName_def)
  show ?thesis
    using SetEnvironmentVariables_not_windows
            [of "\<lparr>goos = ''plan9'', homeDir = None, environ = Map.empty,
                   names = Map.empty,
                   path_error = Map.empty,
                   store = (\<lambda>_. \<lparr>content = [], readable = False, appendable = False\<rparr>),
                   setx_ok = (\<lambda>_. False), user_environ = Map.empty\<rparr>",
             OF _ g, THEN conjunct2]
          SetEnvironmentVariables_not_windows
            [of "\<lparr>goos = ''plan9'', homeDir = Some ''/usr/glenda'', environ = Map.empty,
                   names = Map.empty,
                   path_error = Map.empty,
                   store = (\<lambda>_. \<lparr>content = [], readable = False, appendable = False\<rparr>),
                   setx_ok = (\<lambda>_. False), user_environ = Map.empty\<rparr>",
             OF _ g, THEN conjunct2]
          p
    by simp
qed

end
